theory Spec2Isabelle
  imports Complex_Main "HOL-Library.Multiset" "HOL-Library.Char_ord" "HOL-Library.List_Lexorder"
begin

section \<open>The A/B test analyzer of \<^verbatim>\<open>ab_tester.py\<close>\<close>

text \<open>
  The analyzer is a pipeline of pure functions over pandas series: \<^verbatim>\<open>check_inputs\<close>
  splits a data frame into the two samples, \<^verbatim>\<open>winsorize_series\<close> clips the tails,
  \<^verbatim>\<open>welch_t_test\<close> and \<^verbatim>\<open>mann_whitney\<close> call SciPy, \<^verbatim>\<open>bootstrap_lift_ci\<close> resamples with a
  NumPy generator, and \<^verbatim>\<open>analyze_ab\<close> assembles the \<^verbatim>\<open>ABResult\<close>.

  Conventions of the embedding.
  \<^item> A cleaned sample (a numeric series without missing values) is a \<open>real list\<close>.
    Python floats are IEEE doubles; the model computes in the reals, so it describes the
    program up to rounding. The concrete inputs that refute a statement below are chosen
    so that rounding does not change the outcome: their intermediate results are exact in
    binary floating point, or only a sign is read off.
  \<^item> A float that may be NaN or infinite (a mean, a lift, a test statistic) is a value of
    the datatype \<open>float\<close>.
  \<^item> Every \<^verbatim>\<open>raise\<close> of the source and every exception of a library call is a constructor
    of \<open>error\<close>; a function that can raise returns \<open>error + 'a\<close>.
  \<^item> What the libraries compute (pandas, NumPy, SciPy) is written out from their documented
    behaviour where it is elementary (quantiles, clipping, the t statistic), and taken as a
    parameter where it is not (text-to-number parsing, tail probabilities, the
    Mann-Whitney test, the bit generator).
\<close>

subsection \<open>Floats and errors\<close>

datatype float = Finite real | PosInf | NegInf | NaN

text \<open>IEEE subtraction and division, without rounding and without the sign of zero.\<close>

fun float_sub :: "float \<Rightarrow> float \<Rightarrow> float" where
  "float_sub NaN _ = NaN"
| "float_sub _ NaN = NaN"
| "float_sub (Finite x) (Finite y) = Finite (x - y)"
| "float_sub (Finite x) PosInf = NegInf"
| "float_sub (Finite x) NegInf = PosInf"
| "float_sub PosInf PosInf = NaN"
| "float_sub NegInf NegInf = NaN"
| "float_sub PosInf _ = PosInf"
| "float_sub NegInf _ = NegInf"

definition real_div :: "real \<Rightarrow> real \<Rightarrow> float" where
  "real_div x y =
     (if y = 0 then (if x = 0 then NaN else if 0 < x then PosInf else NegInf)
      else Finite (x / y))"

fun float_div :: "float \<Rightarrow> float \<Rightarrow> float" where
  "float_div NaN _ = NaN"
| "float_div _ NaN = NaN"
| "float_div (Finite x) (Finite y) = real_div x y"
| "float_div (Finite x) _ = Finite 0"
| "float_div PosInf (Finite y) = (if y < 0 then NegInf else PosInf)"
| "float_div NegInf (Finite y) = (if y < 0 then PosInf else NegInf)"
| "float_div _ _ = NaN"

text \<open>The sign of a float: \<open>None\<close> for NaN, otherwise \<open>-1\<close>, \<open>0\<close> or \<open>1\<close>.\<close>

fun float_sign :: "float \<Rightarrow> real option" where
  "float_sign (Finite x) = Some (sgn x)"
| "float_sign PosInf = Some 1"
| "float_sign NegInf = Some (- 1)"
| "float_sign NaN = None"

text \<open>
  The exceptions the pipeline can raise. The three \<^verbatim>\<open>ValueError\<close>s of \<^verbatim>\<open>check_inputs\<close> are
  told apart by their message; the others come from library calls.
\<close>

datatype error =
    MissingColumns "string set"  \<comment> \<open>\<^verbatim>\<open>ValueError("Missing required columns: ...")\<close>\<close>
  | NoDataAfterDropNA            \<comment> \<open>\<^verbatim>\<open>ValueError("No data after dropping NA.")\<close>\<close>
  | ExpectedTwoGroups nat        \<comment> \<open>\<^verbatim>\<open>ValueError("Expected exactly 2 groups in ..., found n.")\<close>\<close>
  | ToNumericTypeError           \<comment> \<open>\<^verbatim>\<open>pd.to_numeric\<close> given a frame instead of a series\<close>
  | UnorderableLabels            \<comment> \<open>\<^verbatim>\<open>sorted\<close> comparing a string with a number\<close>
  | QuantileOutOfRange           \<comment> \<open>a quantile level outside \<open>[0, 1]\<close>\<close>
  | QuantileOfEmpty              \<comment> \<open>\<^verbatim>\<open>np.quantile\<close> of an empty array\<close>
  | NegativeDimensions           \<comment> \<open>\<^verbatim>\<open>np.empty\<close> with a negative length\<close>
  | NegativeSeed                 \<comment> \<open>\<^verbatim>\<open>np.random.default_rng\<close> with a negative seed\<close>

subsection \<open>Quantiles by linear interpolation\<close>

text \<open>
  The default method of \<^verbatim>\<open>Series.quantile\<close> and \<^verbatim>\<open>np.quantile\<close>: with the data sorted, the
  level \<open>q\<close> sits at the virtual index \<open>(n - 1) * q\<close>; the result interpolates linearly
  between the order statistics on either side of it.
\<close>

definition lin_quantile :: "real list \<Rightarrow> real \<Rightarrow> real" where
  "lin_quantile xs q =
     (let ys = sort xs;
          n = length ys;
          h = real (n - 1) * q;
          j = nat \<lfloor>h\<rfloor>;
          g = h - real j;
          lo = ys ! j;
          hi = ys ! (min (j + 1) (n - 1))
      in lo + g * (hi - lo))"

text \<open>
  \<^verbatim>\<open>Series.quantile\<close>: a level outside \<open>[0, 1]\<close> raises, an empty series gives NaN
  (\<open>None\<close>).
\<close>

definition series_quantile :: "real list \<Rightarrow> real \<Rightarrow> error + real option" where
  "series_quantile s q =
     (if q < 0 \<or> 1 < q then Inl QuantileOutOfRange
      else if s = [] then Inr None
      else Inr (Some (lin_quantile s q)))"

text \<open>
  \<^verbatim>\<open>np.quantile\<close>: the same level check; an empty array raises (NumPy 1.22 and later
  index the last element of the partitioned data; earlier releases return NaN).
\<close>

definition np_quantile :: "real list \<Rightarrow> real \<Rightarrow> error + real" where
  "np_quantile xs q =
     (if q < 0 \<or> 1 < q then Inl QuantileOutOfRange
      else if xs = [] then Inl QuantileOfEmpty
      else Inr (lin_quantile xs q))"

subsection \<open>Winsorization\<close>

text \<open>
  \<^verbatim>\<open>Series.clip(lower, upper)\<close> with scalar bounds: a NaN bound is no bound; when both
  bounds are given pandas orders them first; then every value below the lower bound
  becomes the lower bound and every value above the upper bound the upper bound.
\<close>

definition clip_value :: "real \<Rightarrow> real \<Rightarrow> real \<Rightarrow> real" where
  "clip_value lo hi x = (if x < lo then lo else if hi < x then hi else x)"

fun clip :: "real list \<Rightarrow> real option \<Rightarrow> real option \<Rightarrow> real list" where
  "clip s None None = s"
| "clip s (Some lo) None = map (\<lambda>x. if x < lo then lo else x) s"
| "clip s None (Some hi) = map (\<lambda>x. if hi < x then hi else x) s"
| "clip s (Some lo) (Some hi) = map (clip_value (min lo hi) (max lo hi)) s"

text \<open>
  \<^verbatim>\<open>
  def winsorize_series(s, p):
      if p <= 0:
          return s
      lower = s.quantile(p)
      upper = s.quantile(1 - p)
      return s.clip(lower, upper)
  \<close>
\<close>

definition winsorize_series :: "real list \<Rightarrow> real \<Rightarrow> error + real list" where
  "winsorize_series s p =
     (if p \<le> 0 then Inr s
      else case series_quantile s p of
        Inl e \<Rightarrow> Inl e
      | Inr lower \<Rightarrow>
          (case series_quantile s (1 - p) of
             Inl e \<Rightarrow> Inl e
           | Inr upper \<Rightarrow> Inr (clip s lower upper)))"

text \<open>The default of the \<^verbatim>\<open>winsor\<close> parameter of \<^verbatim>\<open>analyze_ab\<close> and of the command line.\<close>

definition default_winsor :: real where
  "default_winsor = 0"

subsection \<open>The input validator\<close>

text \<open>
  A cell of a data frame is missing (\<^verbatim>\<open>None\<close>, NaN), a number or a text. A data frame is
  its column names and its rows; a row gives the cell of every column. Column names are
  taken to be distinct.
\<close>

datatype cell = NA | Num real | Str string

record dataframe =
  columns :: "string list"
  rows :: "(string \<Rightarrow> cell) list"

text \<open>\<^verbatim>\<open>df[[group_col, value_col]].dropna()\<close>: the two cells of every row that misses neither.\<close>

definition select_dropna :: "dataframe \<Rightarrow> string \<Rightarrow> string \<Rightarrow> (cell \<times> cell) list" where
  "select_dropna df group_col value_col =
     filter (\<lambda>(g, v). g \<noteq> NA \<and> v \<noteq> NA) (map (\<lambda>r. (r group_col, r value_col)) (rows df))"

text \<open>
  \<^verbatim>\<open>pd.to_numeric(..., errors="coerce")\<close> on one cell: a number stays, a text is parsed,
  and what does not parse becomes NaN (\<open>None\<close>). The parser of texts is a parameter.
\<close>

fun to_numeric :: "(string \<Rightarrow> real option) \<Rightarrow> cell \<Rightarrow> real option" where
  "to_numeric parse NA = None"
| "to_numeric parse (Num x) = Some x"
| "to_numeric parse (Str s) = parse s"

text \<open>The coercion of the value column followed by \<^verbatim>\<open>dropna(subset=[value_col])\<close>.\<close>

definition coerce_dropna :: "(string \<Rightarrow> real option) \<Rightarrow> (cell \<times> cell) list \<Rightarrow> (cell \<times> real) list" where
  "coerce_dropna parse ps =
     List.map_filter (\<lambda>(g, v). map_option (Pair g) (to_numeric parse v)) ps"

definition cleaned :: "(string \<Rightarrow> real option) \<Rightarrow> dataframe \<Rightarrow> string \<Rightarrow> string \<Rightarrow> (cell \<times> real) list" where
  "cleaned parse df group_col value_col = coerce_dropna parse (select_dropna df group_col value_col)"

text \<open>
  Python's \<^verbatim>\<open>sorted\<close> on group labels: numbers sort numerically, texts by code point;
  comparing a text with a number raises \<^verbatim>\<open>TypeError\<close>.
\<close>

fun is_Num :: "cell \<Rightarrow> bool" where
  "is_Num (Num x) = True"
| "is_Num c = False"

fun is_Str :: "cell \<Rightarrow> bool" where
  "is_Str (Str s) = True"
| "is_Str c = False"

fun num_of :: "cell \<Rightarrow> real" where
  "num_of (Num x) = x"
| "num_of c = 0"

fun str_of :: "cell \<Rightarrow> string" where
  "str_of (Str s) = s"
| "str_of c = []"

definition py_sorted :: "cell list \<Rightarrow> error + cell list" where
  "py_sorted cs =
     (if list_all is_Num cs then Inr (map Num (sort (map num_of cs)))
      else if list_all is_Str cs then Inr (map Str (sort (map str_of cs)))
      else Inl UnorderableLabels)"

fun label_less :: "cell \<Rightarrow> cell \<Rightarrow> bool" where
  "label_less (Num x) (Num y) = (x < y)"
| "label_less (Str s) (Str t) = (s < t)"
| "label_less c d = False"

text \<open>\<^verbatim>\<open>df.loc[df[group_col] == label, value_col]\<close>, with the index reset.\<close>

definition sample_of :: "cell \<Rightarrow> (cell \<times> real) list \<Rightarrow> real list" where
  "sample_of label df = map snd (filter (\<lambda>(g, x). g = label) df)"

text \<open>
  \<^verbatim>\<open>
  def check_inputs(df, group_col, value_col):
      if group_col not in df.columns or value_col not in df.columns:
          missing = {group_col, value_col} - set(df.columns)
          raise ValueError(f"Missing required columns: {missing}")
      df = df[[group_col, value_col]].dropna()
      if df.empty:
          raise ValueError("No data after dropping NA.")
      df[value_col] = pd.to_numeric(df[value_col], errors="coerce")
      df = df.dropna(subset=[value_col])
      if df[group_col].nunique() != 2:
          raise ValueError(f"Expected exactly 2 groups in '{group_col}', found ...")
      groups = sorted(df[group_col].unique())
      a_label, b_label = groups[0], groups[1]
      a = df.loc[df[group_col] == a_label, value_col]
      b = df.loc[df[group_col] == b_label, value_col]
      return a.reset_index(drop=True), b.reset_index(drop=True)
  \<close>
  When both names are the same column, \<^verbatim>\<open>df[value_col]\<close> is a frame of two columns and
  \<^verbatim>\<open>pd.to_numeric\<close> raises \<^verbatim>\<open>TypeError\<close>.
\<close>

definition check_inputs ::
  "(string \<Rightarrow> real option) \<Rightarrow> dataframe \<Rightarrow> string \<Rightarrow> string \<Rightarrow> error + (real list \<times> real list)" where
  "check_inputs parse df group_col value_col =
     (if group_col \<notin> set (columns df) \<or> value_col \<notin> set (columns df)
      then Inl (MissingColumns ({group_col, value_col} - set (columns df)))
      else
        let df1 = select_dropna df group_col value_col in
        if df1 = [] then Inl NoDataAfterDropNA
        else if group_col = value_col then Inl ToNumericTypeError
        else
          let df2 = coerce_dropna parse df1;
              uniq = remdups (map fst df2)
          in if length uniq \<noteq> 2 then Inl (ExpectedTwoGroups (length uniq))
             else case py_sorted uniq of
               Inl e \<Rightarrow> Inl e
             | Inr groups \<Rightarrow>
                 let a_label = groups ! 0;
                     b_label = groups ! 1
                 in Inr (sample_of a_label df2, sample_of b_label df2))"

subsection \<open>The hypothesis tests\<close>

text \<open>
  \<^verbatim>\<open>Series.mean\<close> is NaN on an empty series. The sample variance has the \<open>n - 1\<close>
  denominator (\<^verbatim>\<open>ddof=1\<close>).
\<close>

definition mean_real :: "real list \<Rightarrow> real" where
  "mean_real xs = sum_list xs / real (length xs)"

definition mean :: "real list \<Rightarrow> float" where
  "mean xs = real_div (sum_list xs) (real (length xs))"

definition sample_var :: "real list \<Rightarrow> real" where
  "sample_var xs = (\<Sum>x\<leftarrow>xs. (x - mean_real xs)\<^sup>2) / (real (length xs) - 1)"

text \<open>
  \<^verbatim>\<open>scipy.stats.ttest_ind(a, b, equal_var=False)\<close>. SciPy's statistic is the mean of its
  first argument minus the mean of its second, over the unpooled standard error; the
  degrees of freedom are Welch-Satterthwaite's; the p-value is twice the upper tail
  probability of Student's distribution at \<open>|t|\<close>. The tail probability \<open>sf df x\<close> is a
  parameter. A sample of fewer than two observations has a NaN variance, and both results
  are NaN; a zero standard error gives an infinite or NaN statistic.
\<close>

fun two_sided_p :: "(real \<Rightarrow> real \<Rightarrow> real) \<Rightarrow> real \<Rightarrow> float \<Rightarrow> float" where
  "two_sided_p sf df (Finite t) = Finite (2 * sf df \<bar>t\<bar>)"
| "two_sided_p sf df NaN = NaN"
| "two_sided_p sf df t = Finite 0"

definition ttest_ind_welch :: "(real \<Rightarrow> real \<Rightarrow> real) \<Rightarrow> real list \<Rightarrow> real list \<Rightarrow> float \<times> float" where
  "ttest_ind_welch sf a b =
     (if length a < 2 \<or> length b < 2 then (NaN, NaN)
      else
        let n1 = real (length a);
            n2 = real (length b);
            vn1 = sample_var a / n1;
            vn2 = sample_var b / n2;
            df = (vn1 + vn2)\<^sup>2 / (vn1\<^sup>2 / (n1 - 1) + vn2\<^sup>2 / (n2 - 1));
            denom = sqrt (vn1 + vn2);
            t = real_div (mean_real a - mean_real b) denom
        in (t, two_sided_p sf df t))"

text \<open>
  \<^verbatim>\<open>
  def welch_t_test(a, b):
      t, p = st.ttest_ind(a, b, equal_var=False)
      return float(t), float(p)
  \<close>
\<close>

definition welch_t_test :: "(real \<Rightarrow> real \<Rightarrow> real) \<Rightarrow> real list \<Rightarrow> real list \<Rightarrow> float \<times> float" where
  "welch_t_test sf a b = ttest_ind_welch sf a b"

text \<open>
  \<^verbatim>\<open>
  def mann_whitney(a, b):
      u, p = st.mannwhitneyu(a, b, alternative="two-sided")
      return float(u), float(p)
  \<close>
  The SciPy function is a parameter; it returns for all non-empty samples.
\<close>

definition mann_whitney ::
  "(real list \<Rightarrow> real list \<Rightarrow> float \<times> float) \<Rightarrow> real list \<Rightarrow> real list \<Rightarrow> float \<times> float" where
  "mann_whitney mwu a b = mwu a b"

subsection \<open>The bootstrap estimator\<close>

text \<open>
  What the libraries contribute and the model does not compute: the parser of
  \<^verbatim>\<open>pd.to_numeric\<close>, the tail probability of Student's distribution, SciPy's
  Mann-Whitney test, and NumPy's bit generator. A generator state has type \<open>'g\<close>;
  \<open>seeded k\<close> is the state \<^verbatim>\<open>default_rng(k)\<close> starts from, \<open>unseeded e\<close> the state
  \<^verbatim>\<open>default_rng(None)\<close> derives from the entropy \<open>e\<close> the operating system hands out at
  that moment, and \<open>next_index g n\<close> draws one index below \<open>n\<close> and steps the state.
\<close>

record 'g library =
  parse_number :: "string \<Rightarrow> real option"
  t_sf :: "real \<Rightarrow> real \<Rightarrow> real"
  mannwhitneyu :: "real list \<Rightarrow> real list \<Rightarrow> float \<times> float"
  seeded :: "int \<Rightarrow> 'g"
  unseeded :: "nat \<Rightarrow> 'g"
  next_index :: "'g \<Rightarrow> nat \<Rightarrow> nat \<times> 'g"

text \<open>\<^verbatim>\<open>np.random.default_rng(seed)\<close>; a negative seed raises.\<close>

definition default_rng :: "'g library \<Rightarrow> nat \<Rightarrow> int option \<Rightarrow> error + 'g" where
  "default_rng L entropy seed =
     (case seed of
        None \<Rightarrow> Inr (unseeded L entropy)
      | Some k \<Rightarrow> if k < 0 then Inl NegativeSeed else Inr (seeded L k))"

text \<open>
  \<^verbatim>\<open>rng.choice(vals, size=k, replace=True)\<close>: \<open>k\<close> draws with replacement. The generator
  delivers indices below the population size; the model reduces what the parameter
  delivers modulo that size.
\<close>

fun choice :: "('g \<Rightarrow> nat \<Rightarrow> nat \<times> 'g) \<Rightarrow> 'g \<Rightarrow> real list \<Rightarrow> nat \<Rightarrow> real list \<times> 'g" where
  "choice nxt g vals 0 = ([], g)"
| "choice nxt g vals (Suc k) =
     (let (i, g1) = nxt g (length vals);
          (rest, g2) = choice nxt g1 vals k
      in (vals ! (i mod length vals) # rest, g2))"

text \<open>
  The loop of \<^verbatim>\<open>bootstrap_lift_ci\<close>, returning the array \<^verbatim>\<open>lifts\<close>:
  \<^verbatim>\<open>
  for i in range(n_boot):
      a_s = rng.choice(a_vals, size=a_vals.size, replace=True)
      b_s = rng.choice(b_vals, size=b_vals.size, replace=True)
      a_mean = a_s.mean()
      b_mean = b_s.mean()
      if a_mean == 0:
          lifts[i] = np.nan
      else:
          lifts[i] = (b_mean - a_mean) / a_mean
  \<close>
\<close>

fun boot_lifts :: "('g \<Rightarrow> nat \<Rightarrow> nat \<times> 'g) \<Rightarrow> real list \<Rightarrow> real list \<Rightarrow> nat \<Rightarrow> 'g \<Rightarrow> float list" where
  "boot_lifts nxt a_vals b_vals 0 g = []"
| "boot_lifts nxt a_vals b_vals (Suc k) g =
     (let (a_s, g1) = choice nxt g a_vals (length a_vals);
          (b_s, g2) = choice nxt g1 b_vals (length b_vals);
          a_mean = mean a_s;
          b_mean = mean b_s;
          lift_i = (if a_mean = Finite 0 then NaN
                    else float_div (float_sub b_mean a_mean) a_mean)
      in lift_i # boot_lifts nxt a_vals b_vals k g2)"

text \<open>
  \<^verbatim>\<open>lifts[~np.isnan(lifts)]\<close>. The entries are finite or NaN (lemma \<open>boot_lifts_finite\<close>
  below), so the entries kept are read as reals.
\<close>

fun finite_values :: "float list \<Rightarrow> real list" where
  "finite_values [] = []"
| "finite_values (Finite x # fs) = x # finite_values fs"
| "finite_values (f # fs) = finite_values fs"

definition drop_nan :: "float list \<Rightarrow> real list" where
  "drop_nan fs = finite_values (filter (\<lambda>f. f \<noteq> NaN) fs)"

text \<open>
  \<^verbatim>\<open>
  def bootstrap_lift_ci(a, b, n_boot=5000, alpha=0.05, seed=42):
      rng = np.random.default_rng(seed)
      a_vals = a.to_numpy()
      b_vals = b.to_numpy()
      lifts = np.empty(n_boot, dtype=float)
      for i in range(n_boot): ...
      lifts = lifts[~np.isnan(lifts)]
      low = np.quantile(lifts, alpha / 2)
      high = np.quantile(lifts, 1 - alpha / 2)
      return float(low), float(high)
  \<close>
  The argument \<open>entropy\<close> is the state of the world outside the call that
  \<^verbatim>\<open>default_rng(None)\<close> would read.
\<close>

definition bootstrap_lift_ci ::
  "'g library \<Rightarrow> nat \<Rightarrow> real list \<Rightarrow> real list \<Rightarrow> int \<Rightarrow> real \<Rightarrow> int option \<Rightarrow> error + (real \<times> real)" where
  "bootstrap_lift_ci L entropy a b n_boot alpha_level seed =
     (case default_rng L entropy seed of
        Inl e \<Rightarrow> Inl e
      | Inr rng \<Rightarrow>
          if n_boot < 0 then Inl NegativeDimensions
          else
            let lifts = drop_nan (boot_lifts (next_index L) a b (nat n_boot) rng) in
            case np_quantile lifts (alpha_level / 2) of
              Inl e \<Rightarrow> Inl e
            | Inr low \<Rightarrow>
                (case np_quantile lifts (1 - alpha_level / 2) of
                   Inl e \<Rightarrow> Inl e
                 | Inr high \<Rightarrow> Inr (low, high)))"

text \<open>
  The estimator in the words of its specification: the resamples of every iteration, and
  the lift of every iteration whose resample of A has a non-zero mean.
\<close>

fun resample_pairs ::
  "('g \<Rightarrow> nat \<Rightarrow> nat \<times> 'g) \<Rightarrow> real list \<Rightarrow> real list \<Rightarrow> nat \<Rightarrow> 'g \<Rightarrow> (real list \<times> real list) list" where
  "resample_pairs nxt a b 0 g = []"
| "resample_pairs nxt a b (Suc k) g =
     (let (a_s, g1) = choice nxt g a (length a);
          (b_s, g2) = choice nxt g1 b (length b)
      in (a_s, b_s) # resample_pairs nxt a b k g2)"

definition retained_lifts :: "(real list \<times> real list) list \<Rightarrow> real list" where
  "retained_lifts ps =
     map (\<lambda>(a_s, b_s). (mean_real b_s - mean_real a_s) / mean_real a_s)
       (filter (\<lambda>(a_s, b_s). mean_real a_s \<noteq> 0) ps)"

definition excluded_count :: "(real list \<times> real list) list \<Rightarrow> nat" where
  "excluded_count ps = length (filter (\<lambda>(a_s, b_s). mean_real a_s = 0) ps)"

subsection \<open>The analysis\<close>

record ABResult =
  group_a_mean :: float
  group_b_mean :: float
  group_a_n :: nat
  group_b_n :: nat
  lift :: float
  welch_t :: float
  welch_p :: float
  mw_u :: float
  mw_p :: float
  ci_low :: real
  ci_high :: real
  alpha :: real
  winsor :: real
  metric :: string
  group_col :: string
  value_col :: string

text \<open>
  \<^verbatim>\<open>
  def analyze_ab(df, group_col, value_col, winsor=0.0, alpha=0.05, n_boot=5000):
      a, b = check_inputs(df, group_col, value_col)
      if winsor > 0:
          a = winsorize_series(a, winsor)
          b = winsorize_series(b, winsor)
      ga = float(a.mean())
      gb = float(b.mean())
      lift = (gb - ga) / ga if ga != 0 else math.nan
      t, tp = welch_t_test(a, b)
      u, up = mann_whitney(a, b)
      ci_low, ci_high = bootstrap_lift_ci(a, b, n_boot=n_boot, alpha=alpha)
      return ABResult(...)
  \<close>
  The call of \<^verbatim>\<open>bootstrap_lift_ci\<close> passes no seed, so the seed is the default 42.
  The body is split in two: \<open>winsorize_both\<close> is the guarded winsorization of both
  samples, \<open>assemble\<close> everything after it.
\<close>

definition winsorize_both :: "real list \<Rightarrow> real list \<Rightarrow> real \<Rightarrow> error + (real list \<times> real list)" where
  "winsorize_both a b p =
     (if 0 < p then
        (case winsorize_series a p of
           Inl e \<Rightarrow> Inl e
         | Inr a' \<Rightarrow>
             (case winsorize_series b p of
                Inl e \<Rightarrow> Inl e
              | Inr b' \<Rightarrow> Inr (a', b')))
      else Inr (a, b))"

definition assemble ::
  "'g library \<Rightarrow> nat \<Rightarrow> string \<Rightarrow> string \<Rightarrow> real \<Rightarrow> real \<Rightarrow> int \<Rightarrow> real list \<Rightarrow> real list \<Rightarrow> error + ABResult" where
  "assemble L entropy gcol vcol p alpha_level n_boot a b =
     (let ga = mean a;
          gb = mean b;
          l = (if ga \<noteq> Finite 0 then float_div (float_sub gb ga) ga else NaN);
          (t, tp) = welch_t_test (t_sf L) a b;
          (u, up) = mann_whitney (mannwhitneyu L) a b
      in case bootstrap_lift_ci L entropy a b n_boot alpha_level (Some 42) of
           Inl e \<Rightarrow> Inl e
         | Inr (lo, hi) \<Rightarrow>
             Inr \<lparr>group_a_mean = ga, group_b_mean = gb,
                  group_a_n = length a, group_b_n = length b,
                  lift = l, welch_t = t, welch_p = tp, mw_u = u, mw_p = up,
                  ci_low = lo, ci_high = hi, alpha = alpha_level, winsor = p,
                  metric = vcol, group_col = gcol, value_col = vcol\<rparr>)"

definition analyze_ab ::
  "'g library \<Rightarrow> nat \<Rightarrow> dataframe \<Rightarrow> string \<Rightarrow> string \<Rightarrow> real \<Rightarrow> real \<Rightarrow> int \<Rightarrow> error + ABResult" where
  "analyze_ab L entropy df gcol vcol p alpha_level n_boot =
     (case check_inputs (parse_number L) df gcol vcol of
        Inl e \<Rightarrow> Inl e
      | Inr (a0, b0) \<Rightarrow>
          (case winsorize_both a0 b0 p of
             Inl e \<Rightarrow> Inl e
           | Inr (a, b) \<Rightarrow> assemble L entropy gcol vcol p alpha_level n_boot a b))"

subsection \<open>A concrete library, for running the model\<close>

text \<open>
  An instance of the library parameters on which the model can be evaluated: a parser of
  unsigned decimal integers, a tail bound, a Mann-Whitney stand-in that counts the pairs
  \<open>(x, y)\<close> with \<open>y < x\<close>, and a linear congruential generator.
\<close>

definition digit_value :: "char \<Rightarrow> nat option" where
  "digit_value c =
     (let code = (of_char c :: nat)
      in if 48 \<le> code \<and> code \<le> 57 then Some (code - 48) else None)"

fun parse_digits_acc :: "nat \<Rightarrow> string \<Rightarrow> nat option" where
  "parse_digits_acc acc [] = Some acc"
| "parse_digits_acc acc (c # cs) =
     (case digit_value c of
        None \<Rightarrow> None
      | Some d \<Rightarrow> parse_digits_acc (10 * acc + d) cs)"

definition parse_digits :: "string \<Rightarrow> real option" where
  "parse_digits s = (if s = [] then None else map_option real (parse_digits_acc 0 s))"

definition count_pairs :: "real list \<Rightarrow> real list \<Rightarrow> float \<times> float" where
  "count_pairs a b =
     (Finite (real (length (filter (\<lambda>(x, y). y < x) (List.product a b)))), Finite 1)"

definition lcg_step :: "nat \<Rightarrow> nat \<Rightarrow> nat \<times> nat" where
  "lcg_step g n = ((g div 8) mod n, (13 * g + 7) mod 64)"

definition example_library :: "nat library" where
  "example_library =
     \<lparr>parse_number = parse_digits,
      t_sf = (\<lambda>df x. 1 / (2 + 2 * x)),
      mannwhitneyu = count_pairs,
      seeded = (\<lambda>k. nat k mod 64),
      unseeded = (\<lambda>e. e mod 64),
      next_index = lcg_step\<rparr>"

text \<open>
  Two small data frames. In the first no value is a number; in the second the group
  \<open>control\<close> keeps one observation (its second row misses the value) and the group
  \<open>variant\<close> two.
\<close>

definition text_values_frame :: dataframe where
  "text_values_frame =
     \<lparr>columns = [''group'', ''value''],
      rows = [
        (\<lambda>c. if c = ''group'' then Str ''x'' else if c = ''value'' then Str ''abc'' else NA),
        (\<lambda>c. if c = ''group'' then Str ''y'' else if c = ''value'' then Str ''def'' else NA)]\<rparr>"

definition small_group_frame :: dataframe where
  "small_group_frame =
     \<lparr>columns = [''group'', ''revenue''],
      rows = [
        (\<lambda>c. if c = ''group'' then Str ''variant'' else if c = ''revenue'' then Num 12 else NA),
        (\<lambda>c. if c = ''group'' then Str ''control'' else if c = ''revenue'' then Str ''8'' else NA),
        (\<lambda>c. if c = ''group'' then Str ''variant'' else if c = ''revenue'' then Num 16 else NA),
        (\<lambda>c. if c = ''group'' then Str ''control'' else NA)]\<rparr>"

definition small_group_frame_reversed :: dataframe where
  "small_group_frame_reversed =
     \<lparr>columns = columns small_group_frame, rows = rev (rows small_group_frame)\<rparr>"

section \<open>Winsorization\<close>

text \<open>
  C8. Winsorization with \<open>p = 0\<close> is the identity on every series, and \<open>0\<close> is the
  default proportion: with it \<^verbatim>\<open>analyze_ab\<close> passes both samples on unchanged.
\<close>

theorem winsorize_zero_identity:
  "winsorize_series s 0 = Inr s
   \<and> winsorize_series s default_winsor = Inr s
   \<and> winsorize_both a b default_winsor = Inr (a, b)"
  by (simp add: winsorize_series_def winsorize_both_def default_winsor_def)

text \<open>
  C10. For every \<open>p \<le> 0\<close>, negative proportions included, \<^verbatim>\<open>winsorize_series\<close> returns its
  input and does not raise. No quantile is computed: for \<open>p < 0\<close> the quantile call itself
  would raise.
\<close>

theorem winsorize_nonpositive_identity:
  "p \<le> 0 \<Longrightarrow>
   winsorize_series s p = Inr s \<and> (p < 0 \<longrightarrow> series_quantile s p = Inl QuantileOutOfRange)"
  by (simp add: winsorize_series_def series_quantile_def)

theorem winsorize_nonpositive_identity_witness:
  "winsorize_series [3, 1, 2] (- 1) = Inr [3, 1, 2]
   \<and> series_quantile [3, 1, 2] (- 1) = Inl QuantileOutOfRange"
  using winsorize_nonpositive_identity[of "- 1" "[3, 1, 2]"] by simp

text \<open>
  Clipping is monotone, so it commutes with sorting; this is what makes a second
  winsorization see the clipped order statistics.
\<close>

lemma sort_map_mono:
  fixes f :: "real \<Rightarrow> real"
  assumes "mono f"
  shows "sort (map f xs) = map f (sort xs)"
proof (rule properties_for_sort)
  show "mset (map f (sort xs)) = mset (map f xs)" by simp
next
  have "sorted (sort xs)" by simp
  then have "sorted_wrt (\<lambda>x y. f x \<le> f y) (sort xs)"
    by (rule sorted_wrt_mono_rel[rotated]) (use assms in \<open>auto dest: monoD\<close>)
  then show "sorted (map f (sort xs))" by (simp add: sorted_map)
qed

lemma mono_clip_value: "lo \<le> hi \<Longrightarrow> mono (clip_value lo hi)"
  by (auto simp: mono_def clip_value_def)

lemma clip_value_idem:
  "lo \<le> hi \<Longrightarrow> clip_value lo hi (clip_value lo hi x) = clip_value lo hi x"
  by (auto simp: clip_value_def)

lemma clip_value_lo: "lo \<le> hi \<Longrightarrow> clip_value lo hi lo = lo"
  by (simp add: clip_value_def)

lemma clip_value_hi: "lo \<le> hi \<Longrightarrow> clip_value lo hi hi = hi"
  by (simp add: clip_value_def)

lemma lin_quantile_at_index:
  assumes "real (length xs - 1) * q = real j"
  shows "lin_quantile xs q = sort xs ! j"
  using assms by (simp add: lin_quantile_def Let_def)

lemma lin_quantile_single: "lin_quantile [v] q = v"
  by (simp add: lin_quantile_def Let_def)

text \<open>
  When the virtual index \<open>(n - 1) * p\<close> is a whole number \<open>j\<close>, both bounds are order
  statistics: the \<open>j\<close>-th from below and the \<open>j\<close>-th from above.
\<close>

lemma winsorize_whole_position:
  assumes p: "0 < p" "p < 1/2"
    and ne: "s \<noteq> []"
    and whole: "real (length s - 1) * p = real j"
  shows "winsorize_series s p =
           Inr (map (clip_value (sort s ! j) (sort s ! (length s - 1 - j))) s)
         \<and> j \<le> length s - 1 - j \<and> length s - 1 - j < length s"
proof -
  let ?n = "length s"
  have "real j \<le> real (?n - 1) * (1/2)"
    using whole p by (metis less_eq_real_def mult_left_mono of_nat_0_le_iff)
  then have j2: "2 * j \<le> ?n - 1" by linarith
  then have jle: "j \<le> ?n - 1 - j" by linarith
  have lt: "?n - 1 - j < ?n" using ne by (cases s) auto
  have "real (?n - 1) * (1 - p) = real (?n - 1) - real j"
    using whole by (simp add: algebra_simps)
  also have "\<dots> = real (?n - 1 - j)" using j2 by (simp add: of_nat_diff)
  finally have up: "lin_quantile s (1 - p) = sort s ! (?n - 1 - j)"
    by (rule lin_quantile_at_index)
  have lo: "lin_quantile s p = sort s ! j" using whole by (rule lin_quantile_at_index)
  have ord: "sort s ! j \<le> sort s ! (?n - 1 - j)"
    by (rule sorted_nth_mono) (use jle lt in auto)
  show ?thesis
    using p ne lo up ord jle lt
    by (simp add: winsorize_series_def series_quantile_def)
qed

lemma winsorize_twice:
  assumes p: "0 < p" "p < 1/2"
    and whole: "real (length s - 1) * p = real_of_int \<lfloor>real (length s - 1) * p\<rfloor>"
  shows "\<exists>w. winsorize_series s p = Inr w \<and> winsorize_series w p = Inr w"
proof (cases "s = []")
  case True
  with p show ?thesis by (simp add: winsorize_series_def series_quantile_def)
next
  case False
  define j where "j = nat \<lfloor>real (length s - 1) * p\<rfloor>"
  have "0 \<le> real (length s - 1) * p" using p by simp
  then have wj: "real (length s - 1) * p = real j"
    unfolding j_def using whole by (metis of_int_0_le_iff of_nat_nat)
  let ?lo = "sort s ! j" and ?hi = "sort s ! (length s - 1 - j)"
  define w where "w = map (clip_value ?lo ?hi) s"
  from winsorize_whole_position[OF p False wj]
  have weq: "winsorize_series s p = Inr w"
    and jle: "j \<le> length s - 1 - j" and lt: "length s - 1 - j < length s"
    by (simp_all add: w_def)
  have ord: "?lo \<le> ?hi" by (rule sorted_nth_mono) (use jle lt in auto)
  have len: "length w = length s" by (simp add: w_def)
  have wne: "w \<noteq> []" using False by (simp add: w_def)
  have sw: "sort w = map (clip_value ?lo ?hi) (sort s)"
    unfolding w_def by (rule sort_map_mono[OF mono_clip_value[OF ord]])
  have wj': "real (length w - 1) * p = real j" using wj len by simp
  from winsorize_whole_position[OF p wne wj']
  have "winsorize_series w p = Inr (map (clip_value (sort w ! j) (sort w ! (length w - 1 - j))) w)"
    by simp
  moreover have "sort w ! j = ?lo"
    using sw jle lt ord by (simp add: clip_value_lo)
  moreover have "sort w ! (length w - 1 - j) = ?hi"
    using sw lt ord len by (simp add: clip_value_hi)
  ultimately have "winsorize_series w p = Inr w"
    using ord by (simp add: w_def clip_value_idem)
  with weq show ?thesis by blast
qed

text \<open>
  The statement of C4 fails as it stands. With \<open>s = [0, 10]\<close> and \<open>p = 1/4\<close> the bounds
  are interpolated, \<open>2.5\<close> and \<open>7.5\<close>; the second pass interpolates between the clipped
  values and clips further, to \<open>3.75\<close> and \<open>6.25\<close>.
\<close>

theorem winsorize_twice_counterexample:
  "winsorize_series [0, 10] (1/4) = Inr [5/2, 15/2]
   \<and> winsorize_series [5/2, 15/2] (1/4) = Inr [15/4, 25/4]"
  by (simp add: winsorize_series_def series_quantile_def lin_quantile_def Let_def clip_value_def)

text \<open>
  C4, amended. For \<open>0 < p < 1/2\<close>, winsorizing returns, and winsorizing the result again
  with the same \<open>p\<close> changes nothing, whenever the virtual index \<open>(n - 1) * p\<close> of the lower
  quantile is a whole number, so that both quantiles are order statistics of the series
  and no interpolation takes place.
\<close>

theorem winsorize_idempotent_whole_position:
  assumes "0 < p" "p < 1/2"
    and "real (length s - 1) * p = real_of_int \<lfloor>real (length s - 1) * p\<rfloor>"
  shows "case winsorize_series s p of
           Inl e \<Rightarrow> False
         | Inr w \<Rightarrow> winsorize_series w p = Inr w"
  using winsorize_twice[OF assms] by auto

theorem winsorize_idempotent_whole_position_witness:
  "winsorize_series [5, 1, 3, 2, 4] (1/4) = Inr [4, 2, 3, 2, 4]
   \<and> winsorize_series [4, 2, 3, 2, 4] (1/4) = Inr [4, 2, 3, 2, 4]"
proof -
  have w: "winsorize_series [5, 1, 3, 2, 4] (1/4) = Inr [4, 2, 3, 2, 4]"
    by (simp add: winsorize_series_def series_quantile_def lin_quantile_def Let_def
        clip_value_def)
  show ?thesis
    using winsorize_idempotent_whole_position[of "1/4" "[5, 1, 3, 2, 4]"] w by simp
qed

section \<open>Welch's t-test\<close>

lemma sample_var_nonneg:
  assumes "2 \<le> length xs"
  shows "0 \<le> sample_var xs"
proof -
  from assms have "0 < real (length xs) - 1" by simp
  moreover have "0 \<le> (\<Sum>x\<leftarrow>xs. (x - mean_real xs)\<^sup>2)"
    by (rule sum_list_nonneg) auto
  ultimately show ?thesis by (simp add: sample_var_def)
qed

lemma float_sign_real_div:
  "0 \<le> y \<Longrightarrow> float_sign (real_div x y) = (if y = 0 \<and> x = 0 then None else Some (sgn x))"
  by (auto simp: real_div_def sgn_real_def zero_less_divide_iff divide_less_0_iff)

lemma welch_statistic_eq:
  "2 \<le> length a \<Longrightarrow> 2 \<le> length b \<Longrightarrow>
   fst (welch_t_test sf a b) =
     real_div (mean_real a - mean_real b)
       (sqrt (sample_var a / real (length a) + sample_var b / real (length b)))"
  by (simp add: welch_t_test_def ttest_ind_welch_def Let_def)

lemma welch_p_eq:
  "2 \<le> length a \<Longrightarrow> 2 \<le> length b \<Longrightarrow>
   \<exists>df. snd (welch_t_test sf a b) = two_sided_p sf df (fst (welch_t_test sf a b))"
  by (simp add: welch_t_test_def ttest_ind_welch_def Let_def) blast

lemma welch_small_sample:
  "length a < 2 \<or> length b < 2 \<Longrightarrow> welch_t_test sf a b = (NaN, NaN)"
  by (auto simp: welch_t_test_def ttest_ind_welch_def)

lemma two_sided_p_range:
  assumes "\<And>df x. 0 \<le> x \<Longrightarrow> 0 \<le> sf df x \<and> sf df x \<le> 1/2"
  shows "case two_sided_p sf df t of
           Finite p \<Rightarrow> 0 \<le> p \<and> p \<le> 1 \<and> t \<noteq> NaN
         | NaN \<Rightarrow> t = NaN
         | _ \<Rightarrow> False"
proof (cases t)
  case (Finite x)
  from assms[of "\<bar>x\<bar>" df] show ?thesis using Finite by simp
qed simp_all

lemma example_means:
  "mean_real [10, 10, 10, 12] = 21/2" "mean_real [12, 12, 12, 14] = 25/2"
  by (simp_all add: mean_real_def)

lemma example_vars:
  "sample_var [10, 10, 10, 12] = 1" "sample_var [12, 12, 12, 14] = 1"
  by (simp_all add: sample_var_def mean_real_def power2_eq_square)

text \<open>
  The statement of C1 fails as it stands, on the scenario of the specification itself:
  for \<open>A = [10, 10, 10, 12]\<close> and \<open>B = [12, 12, 12, 14]\<close> the mean of B is the larger, and
  the statistic returned is negative. \<^verbatim>\<open>welch_t_test(a, b)\<close> hands the samples to SciPy in
  the order A, B, and SciPy subtracts the mean of its second argument from the mean of its
  first.
\<close>

theorem welch_sign_counterexample:
  "float_sign (fst (welch_t_test (t_sf example_library) [10, 10, 10, 12] [12, 12, 12, 14]))
     = Some (- 1)
   \<and> sgn (mean_real [12, 12, 12, 14] - mean_real [10, 10, 10, 12]) = 1"
  by (simp add: welch_t_test_def ttest_ind_welch_def Let_def example_means example_vars
      real_div_def sgn_real_def)

text \<open>
  A second deviation: two constant samples with the same mean have a zero standard error,
  and both the statistic and the p-value are NaN.
\<close>

lemma welch_constant_samples: "welch_t_test sf [1, 1] [1, 1] = (NaN, NaN)"
  by (simp add: welch_t_test_def ttest_ind_welch_def Let_def sample_var_def mean_real_def
      real_div_def)

text \<open>
  C1, amended. For samples A and B of at least 2 observations each, the statistic
  returned is \<open>(mean_A - mean_B) / sqrt (var_A / n_A + var_B / n_B)\<close> with the unbiased
  sample variances, the division being IEEE's when the denominator is zero. Its sign is the
  sign of \<open>mean_A - mean_B\<close>, the opposite of the sign of \<open>mean_B - mean_A\<close>, unless the
  denominator is zero and the means are equal, where the statistic is NaN. The p-value is
  NaN exactly when the statistic is, and lies in \<open>[0, 1]\<close> otherwise, given that the tail
  probability the library supplies lies in \<open>[0, 1/2]\<close> at non-negative arguments.
\<close>

theorem welch_t_statistic:
  assumes na: "2 \<le> length a" and nb: "2 \<le> length b"
    and sf: "\<And>df x. 0 \<le> x \<Longrightarrow> 0 \<le> sf df x \<and> sf df x \<le> 1/2"
  shows "fst (welch_t_test sf a b) =
           real_div (mean_real a - mean_real b)
             (sqrt (sample_var a / real (length a) + sample_var b / real (length b)))
       \<and> float_sign (fst (welch_t_test sf a b)) =
           (if sample_var a / real (length a) + sample_var b / real (length b) = 0
               \<and> mean_real a = mean_real b
            then None else Some (sgn (mean_real a - mean_real b)))
       \<and> (case snd (welch_t_test sf a b) of
             Finite p \<Rightarrow> 0 \<le> p \<and> p \<le> 1 \<and> fst (welch_t_test sf a b) \<noteq> NaN
           | NaN \<Rightarrow> fst (welch_t_test sf a b) = NaN
           | _ \<Rightarrow> False)"
proof -
  let ?se2 = "sample_var a / real (length a) + sample_var b / real (length b)"
  have "0 \<le> ?se2"
    using sample_var_nonneg[OF na] sample_var_nonneg[OF nb] by simp
  then have s: "0 \<le> sqrt ?se2" by simp
  have t: "fst (welch_t_test sf a b) = real_div (mean_real a - mean_real b) (sqrt ?se2)"
    by (rule welch_statistic_eq[OF na nb])
  have sg: "float_sign (fst (welch_t_test sf a b)) =
      (if ?se2 = 0 \<and> mean_real a = mean_real b then None
       else Some (sgn (mean_real a - mean_real b)))"
    unfolding t float_sign_real_div[OF s] by simp
  obtain df where "snd (welch_t_test sf a b) = two_sided_p sf df (fst (welch_t_test sf a b))"
    using welch_p_eq[OF na nb] by blast
  then have p: "case snd (welch_t_test sf a b) of
             Finite p \<Rightarrow> 0 \<le> p \<and> p \<le> 1 \<and> fst (welch_t_test sf a b) \<noteq> NaN
           | NaN \<Rightarrow> fst (welch_t_test sf a b) = NaN
           | _ \<Rightarrow> False"
    using two_sided_p_range[where sf = sf and df = df and t = "fst (welch_t_test sf a b)"] sf
    by simp
  show ?thesis using t sg p by blast
qed

theorem welch_t_statistic_witness:
  "fst (welch_t_test (\<lambda>df x. 1 / (2 + 2 * x)) [10, 10, 10, 12] [12, 12, 12, 14])
       = Finite (- 2 / sqrt (1/2))
   \<and> float_sign (fst (welch_t_test (\<lambda>df x. 1 / (2 + 2 * x)) [10, 10, 10, 12] [12, 12, 12, 14]))
       = Some (- 1)"
proof -
  have sf: "0 \<le> x \<Longrightarrow> 0 \<le> 1 / (2 + 2 * x) \<and> 1 / (2 + 2 * x) \<le> 1/2" for df x :: real
    by (auto simp: field_simps)
  have na: "2 \<le> length [10, 10, 10, 12 :: real]" and nb: "2 \<le> length [12, 12, 12, 14 :: real]"
    by simp_all
  show ?thesis
    using welch_t_statistic[OF na nb, of "\<lambda>df x. 1 / (2 + 2 * x)"] sf
    by (simp add: example_means example_vars real_div_def sgn_real_def)
qed

section \<open>The input validator\<close>

lemma coerce_dropna_empty_iff:
  "coerce_dropna parse ps = [] \<longleftrightarrow> list_all (\<lambda>(g, v). to_numeric parse v = None) ps"
  by (induction ps) (auto simp: coerce_dropna_def List.map_filter_simps split: option.splits)

lemma parse_digits_text: "parse_digits ''abc'' = None" "parse_digits ''def'' = None"
  by (simp_all add: parse_digits_def digit_value_def)

text \<open>
  The statement of C2 fails as it stands. In a frame whose two rows carry the texts
  \<open>abc\<close> and \<open>def\<close> as values, both rows survive the first \<^verbatim>\<open>dropna\<close>, the coercion
  empties the frame, and the error raised is the one of the group count, reporting 0
  groups; the emptiness check stands before the coercion only.
\<close>

theorem check_inputs_unparsable_counterexample:
  "check_inputs parse_digits text_values_frame ''group'' ''value'' = Inl (ExpectedTwoGroups 0)
   \<and> length (select_dropna text_values_frame ''group'' ''value'') = 2
   \<and> cleaned parse_digits text_values_frame ''group'' ''value'' = []"
  by (simp add: check_inputs_def Let_def cleaned_def select_dropna_def coerce_dropna_def
      text_values_frame_def List.map_filter_simps parse_digits_text)

text \<open>
  C2, amended. When both columns exist and differ, some row survives the dropping of
  missing values, and the coercion leaves no value of the surviving rows numeric, the
  validator fails with the error of the group count, \<^verbatim>\<open>Expected exactly 2 groups\<close>, found
  0, and with no other error.
\<close>

theorem check_inputs_all_unparsable:
  assumes cols: "gcol \<in> set (columns df)" "vcol \<in> set (columns df)"
    and neq: "gcol \<noteq> vcol"
    and some: "select_dropna df gcol vcol \<noteq> []"
    and unparsable: "list_all (\<lambda>(g, v). to_numeric parse v = None) (select_dropna df gcol vcol)"
  shows "check_inputs parse df gcol vcol = Inl (ExpectedTwoGroups 0)"
proof -
  have "coerce_dropna parse (select_dropna df gcol vcol) = []"
    using unparsable by (simp add: coerce_dropna_empty_iff)
  then show ?thesis
    using cols neq some by (simp add: check_inputs_def Let_def)
qed

theorem check_inputs_all_unparsable_witness:
  "select_dropna text_values_frame ''group'' ''value'' \<noteq> []
   \<and> check_inputs parse_digits text_values_frame ''group'' ''value'' = Inl (ExpectedTwoGroups 0)"
  using check_inputs_all_unparsable[of "''group''" text_values_frame "''value''" parse_digits]
  by (simp add: select_dropna_def text_values_frame_def parse_digits_text)

lemma sort_two:
  fixes x y :: "'a::linorder"
  assumes "set zs = {x, y}" "distinct zs" "x < y"
  shows "sort zs = [x, y]"
proof (rule sorted_distinct_set_unique)
  show "sorted (sort zs)" by simp
  show "distinct (sort zs)" using assms by simp
  show "sorted [x, y]" using assms by simp
  show "distinct [x, y]" using assms by simp
  show "set (sort zs) = set [x, y]" using assms by simp
qed

lemma label_less_cases:
  assumes "label_less la lb"
  obtains (nums) x y where "la = Num x" "lb = Num y" "x < y"
        | (strs) s t where "la = Str s" "lb = Str t" "s < t"
  using assms by (cases la; cases lb) auto

lemma label_less_neq: "label_less la lb \<Longrightarrow> la \<noteq> lb"
  by (cases la; cases lb) auto

lemma py_sorted_two:
  assumes set: "set cs = {la, lb}" and dist: "distinct cs" and less: "label_less la lb"
  shows "py_sorted cs = Inr [la, lb]"
  using less
proof (cases rule: label_less_cases)
  case (nums x y)
  have all: "list_all is_Num cs" using set nums by (auto simp: list_all_iff)
  have inj: "inj_on num_of (set cs)" using set nums by (auto simp: inj_on_def)
  have "sort (map num_of cs) = [x, y]"
  proof (rule sort_two)
    show "set (map num_of cs) = {x, y}" using set nums by simp
    show "distinct (map num_of cs)" using dist inj by (simp add: distinct_map)
    show "x < y" by (rule nums)
  qed
  then show ?thesis using all nums by (simp add: py_sorted_def)
next
  case (strs s t)
  have all: "list_all is_Str cs" using set strs by (auto simp: list_all_iff)
  have nall: "\<not> list_all is_Num cs" using set strs by (auto simp: list_all_iff)
  have inj: "inj_on str_of (set cs)" using set strs by (auto simp: inj_on_def)
  have "sort (map str_of cs) = [s, t]"
  proof (rule sort_two)
    show "set (map str_of cs) = {s, t}" using set strs by simp
    show "distinct (map str_of cs)" using dist inj by (simp add: distinct_map)
    show "s < t" by (rule strs)
  qed
  then show ?thesis using all nall strs by (simp add: py_sorted_def)
qed

lemma check_inputs_two_labels:
  assumes cols: "gcol \<in> set (columns df)" "vcol \<in> set (columns df)"
    and neq: "gcol \<noteq> vcol"
    and labels: "set (map fst (cleaned parse df gcol vcol)) = {la, lb}"
    and less: "label_less la lb"
  shows "check_inputs parse df gcol vcol =
           Inr (sample_of la (cleaned parse df gcol vcol), sample_of lb (cleaned parse df gcol vcol))"
proof -
  let ?cl = "cleaned parse df gcol vcol"
  let ?uniq = "remdups (map fst ?cl)"
  have ne: "select_dropna df gcol vcol \<noteq> []"
    using labels by (auto simp: cleaned_def coerce_dropna_def List.map_filter_simps)
  have "card {la, lb} = 2" using label_less_neq[OF less] by simp
  then have len: "length ?uniq = 2"
    using labels by (simp add: length_remdups_card_conv)
  have "py_sorted ?uniq = Inr [la, lb]"
    by (rule py_sorted_two) (use labels less in auto)
  then show ?thesis
    using cols neq ne len by (simp add: check_inputs_def Let_def cleaned_def)
qed

lemma mset_cleaned:
  assumes "mset (rows df') = mset (rows df)"
  shows "mset (cleaned parse df' gcol vcol) = mset (cleaned parse df gcol vcol)"
proof -
  have "mset (select_dropna df' gcol vcol) = mset (select_dropna df gcol vcol)"
    unfolding select_dropna_def mset_filter mset_map assms ..
  then show ?thesis
    by (simp add: cleaned_def coerce_dropna_def List.map_filter_def)
qed

lemma mset_sample_of: "mset xs = mset ys \<Longrightarrow> mset (sample_of l xs) = mset (sample_of l ys)"
  by (simp add: sample_of_def)

lemma cleaned_small_group_frame:
  "cleaned parse_digits small_group_frame ''group'' ''revenue'' =
     [(Str ''variant'', 12), (Str ''control'', 8), (Str ''variant'', 16)]"
  by (simp add: cleaned_def select_dropna_def coerce_dropna_def List.map_filter_simps
      small_group_frame_def parse_digits_def digit_value_def)

lemma check_small_group_frame:
  "check_inputs parse_digits small_group_frame ''group'' ''revenue'' = Inr ([8], [12, 16])"
  by (simp add: check_inputs_def Let_def select_dropna_def coerce_dropna_def
      List.map_filter_simps small_group_frame_def parse_digits_def digit_value_def
      py_sorted_def sample_of_def)

text \<open>
  C9. Let a data frame have both columns, under different names, and let its cleaned
  rows carry exactly two labels \<open>la\<close> and \<open>lb\<close> with \<open>la\<close> the smaller (two numbers in
  numeric order or two texts in lexicographic order). Then the validator returns the
  values of \<open>la\<close> as sample A and the values of \<open>lb\<close> as sample B, each in row order; and
  on any frame with the same rows in another order it returns the samples of the same
  labels, with the same values up to their order.
\<close>

theorem check_inputs_smaller_label_first:
  assumes cols: "gcol \<in> set (columns df)" "vcol \<in> set (columns df)"
    and neq: "gcol \<noteq> vcol"
    and labels: "set (map fst (cleaned parse df gcol vcol)) = {la, lb}"
    and less: "label_less la lb"
    and perm: "mset (rows df') = mset (rows df)" "columns df' = columns df"
  shows "check_inputs parse df gcol vcol =
           Inr (sample_of la (cleaned parse df gcol vcol), sample_of lb (cleaned parse df gcol vcol))
       \<and> (case check_inputs parse df' gcol vcol of
            Inl e \<Rightarrow> False
          | Inr (a', b') \<Rightarrow>
              a' = sample_of la (cleaned parse df' gcol vcol) \<and>
              b' = sample_of lb (cleaned parse df' gcol vcol) \<and>
              mset a' = mset (sample_of la (cleaned parse df gcol vcol)) \<and>
              mset b' = mset (sample_of lb (cleaned parse df gcol vcol)))"
proof -
  have m: "mset (cleaned parse df' gcol vcol) = mset (cleaned parse df gcol vcol)"
    by (rule mset_cleaned[OF perm(1)])
  then have "set (cleaned parse df' gcol vcol) = set (cleaned parse df gcol vcol)"
    by (rule mset_eq_setD)
  then have labels': "set (map fst (cleaned parse df' gcol vcol)) = {la, lb}"
    using labels by simp
  have 1: "check_inputs parse df gcol vcol =
           Inr (sample_of la (cleaned parse df gcol vcol), sample_of lb (cleaned parse df gcol vcol))"
    by (rule check_inputs_two_labels[OF cols neq labels less])
  have 2: "check_inputs parse df' gcol vcol =
           Inr (sample_of la (cleaned parse df' gcol vcol), sample_of lb (cleaned parse df' gcol vcol))"
    by (rule check_inputs_two_labels) (use cols neq labels' less perm in auto)
  show ?thesis
    using 1 2 mset_sample_of[OF m] by simp
qed

theorem check_inputs_smaller_label_first_witness:
  "label_less (Str ''control'') (Str ''variant'')
   \<and> check_inputs parse_digits small_group_frame ''group'' ''revenue'' = Inr ([8], [12, 16])
   \<and> check_inputs parse_digits small_group_frame_reversed ''group'' ''revenue''
       = Inr ([8], [16, 12])"
proof -
  have cl': "cleaned parse_digits small_group_frame_reversed ''group'' ''revenue'' =
     [(Str ''variant'', 16), (Str ''control'', 8), (Str ''variant'', 12)]"
    by (simp add: cleaned_def select_dropna_def coerce_dropna_def List.map_filter_simps
        small_group_frame_reversed_def small_group_frame_def parse_digits_def digit_value_def)
  have cols: "''group'' \<in> set (columns small_group_frame)"
    "''revenue'' \<in> set (columns small_group_frame)"
    by (simp_all add: small_group_frame_def)
  have perm: "mset (rows small_group_frame_reversed) = mset (rows small_group_frame)"
    "columns small_group_frame_reversed = columns small_group_frame"
    by (simp_all add: small_group_frame_reversed_def)
  have labels: "set (map fst (cleaned parse_digits small_group_frame ''group'' ''revenue''))
      = {Str ''control'', Str ''variant''}"
    by (auto simp: cleaned_small_group_frame)
  have less: "label_less (Str ''control'') (Str ''variant'')" by simp
  have neq: "''group'' \<noteq> ''revenue''" by simp
  show ?thesis
    using check_inputs_smaller_label_first[OF cols neq labels less perm] less
    by (simp add: cleaned_small_group_frame cl' sample_of_def
        split: sum.splits prod.splits)
qed

section \<open>The bootstrap estimator\<close>

lemma length_choice: "length (fst (choice nxt g vals k)) = k"
  by (induction k arbitrary: g) (simp_all add: Let_def case_prod_beta)

lemma mean_nonempty: "xs \<noteq> [] \<Longrightarrow> mean xs = Finite (mean_real xs)"
  by (simp add: mean_def mean_real_def real_div_def)

text \<open>The array \<^verbatim>\<open>lifts\<close> holds one entry for each pair of resamples.\<close>

lemma boot_lifts_resample:
  "boot_lifts nxt a b n g =
     map (\<lambda>(a_s, b_s). if mean a_s = Finite 0 then NaN
                        else float_div (float_sub (mean b_s) (mean a_s)) (mean a_s))
       (resample_pairs nxt a b n g)"
  by (induction n arbitrary: g) (auto simp: Let_def split: prod.splits)

lemma resample_pairs_lengths:
  "(a_s, b_s) \<in> set (resample_pairs nxt a b n g) \<Longrightarrow>
   length a_s = length a \<and> length b_s = length b"
proof (induction n arbitrary: g)
  case 0
  then show ?case by simp
next
  case (Suc n)
  then show ?case
    using length_choice[of nxt _ a "length a"] length_choice[of nxt _ b "length b"]
    by (auto simp: Let_def split: prod.splits) (metis fst_conv)+
qed

lemma length_resample_pairs: "length (resample_pairs nxt a b n g) = n"
  by (induction n arbitrary: g) (auto simp: Let_def split: prod.splits)

lemma drop_nan_lifts:
  "list_all (\<lambda>(a_s, b_s). a_s \<noteq> [] \<and> b_s \<noteq> []) ps \<Longrightarrow>
   drop_nan (map (\<lambda>(a_s, b_s). if mean a_s = Finite 0 then NaN
                      else float_div (float_sub (mean b_s) (mean a_s)) (mean a_s)) ps)
     = retained_lifts ps"
  by (induction ps) (auto simp: drop_nan_def retained_lifts_def mean_nonempty real_div_def)

lemma retained_plus_excluded: "length (retained_lifts ps) + excluded_count ps = length ps"
  by (induction ps) (auto simp: retained_lifts_def excluded_count_def)

text \<open>The array never holds an infinity, so dropping the NaNs leaves reals.\<close>

lemma boot_lifts_finite:
  assumes "f \<in> set (boot_lifts nxt a b n g)"
  shows "f \<noteq> PosInf \<and> f \<noteq> NegInf"
proof -
  have "(if mean a_s = Finite 0 then NaN
         else float_div (float_sub (mean b_s) (mean a_s)) (mean a_s)) \<notin> {PosInf, NegInf}"
    for a_s b_s :: "real list"
    by (cases "mean a_s"; cases "mean b_s") (auto simp: mean_def real_div_def split: if_splits)
  with assms show ?thesis
    by (auto simp: boot_lifts_resample)
qed

lemma bootstrap_lift_ci_retained:
  assumes ne: "a \<noteq> []" "b \<noteq> []"
    and al: "0 < al" "al < 1"
    and n: "0 \<le> n_boot"
    and rng: "default_rng L e seed = Inr g"
  shows "bootstrap_lift_ci L e a b n_boot al seed =
           (let r = retained_lifts (resample_pairs (next_index L) a b (nat n_boot) g)
            in if r = [] then Inl QuantileOfEmpty
               else Inr (lin_quantile r (al / 2), lin_quantile r (1 - al / 2)))"
proof -
  let ?ps = "resample_pairs (next_index L) a b (nat n_boot) g"
  have "list_all (\<lambda>(a_s, b_s). a_s \<noteq> [] \<and> b_s \<noteq> []) ?ps"
    unfolding list_all_iff
    using resample_pairs_lengths[of _ _ "next_index L" a b "nat n_boot" g] ne
    by fastforce
  then have "drop_nan (boot_lifts (next_index L) a b (nat n_boot) g) = retained_lifts ?ps"
    by (simp add: boot_lifts_resample drop_nan_lifts)
  then show ?thesis
    using al n rng by (simp add: bootstrap_lift_ci_def np_quantile_def Let_def)
qed

subsection \<open>Runs of the example generator\<close>

lemma example_rng:
  "default_rng example_library e (Some k) =
     (if k < 0 then Inl NegativeSeed else Inr (nat k mod 64))"
  "next_index example_library = lcg_step"
  by (simp_all add: default_rng_def example_library_def)

lemma choice_numeral:
  "choice nxt g vals (numeral k) =
     (let (i, g1) = nxt g (length vals);
          (rest, g2) = choice nxt g1 vals (pred_numeral k)
      in (vals ! (i mod length vals) # rest, g2))"
  by (simp add: numeral_eq_Suc)

lemma resample_pairs_numeral:
  "resample_pairs nxt a b (numeral k) g =
     (let (a_s, g1) = choice nxt g a (length a);
          (b_s, g2) = choice nxt g1 b (length b)
      in (a_s, b_s) # resample_pairs nxt a b (pred_numeral k) g2)"
  by (simp add: numeral_eq_Suc)

lemma boot_lifts_numeral:
  "boot_lifts nxt a_vals b_vals (numeral k) g =
     (let (a_s, g1) = choice nxt g a_vals (length a_vals);
          (b_s, g2) = choice nxt g1 b_vals (length b_vals);
          a_mean = mean a_s;
          b_mean = mean b_s;
          lift_i = (if a_mean = Finite 0 then NaN
                    else float_div (float_sub b_mean a_mean) a_mean)
      in lift_i # boot_lifts nxt a_vals b_vals (pred_numeral k) g2)"
  by (simp add: numeral_eq_Suc)

lemma example_choices:
  "choice lcg_step 7 [- 2, 2] (Suc (Suc 0)) = ([- 2, - 2], Suc 0)"
  "choice lcg_step (Suc 0) [2, 6] (Suc (Suc 0)) = ([2, 2], 11)"
  "choice lcg_step 11 [- 2, 2] (Suc (Suc 0)) = ([2, - 2], 37)"
  "choice lcg_step 37 [2, 6] (Suc (Suc 0)) = ([2, 6], 15)"
  "choice lcg_step 15 [- 2, 2] (Suc (Suc 0)) = ([2, 2], 9)"
  "choice lcg_step 9 [2, 6] (Suc (Suc 0)) = ([6, 6], 19)"
  "choice lcg_step 3 [- 2, 2] (Suc (Suc 0)) = ([- 2, 2], 29)"
  "choice lcg_step 29 [2, 6] (Suc (Suc 0)) = ([6, 2], 7)"
  "choice lcg_step 42 [8] (Suc 0) = ([8], 41)"
  "choice lcg_step 41 [12, 16] (Suc (Suc 0)) = ([16, 16], 51)"
  "choice lcg_step 51 [8] (Suc 0) = ([8], 30)"
  "choice lcg_step 30 [12, 16] (Suc (Suc 0)) = ([16, 16], 48)"
  by (simp_all add: lcg_step_def choice_numeral numeral_2_eq_2[symmetric])

lemma example_resamples:
  "resample_pairs lcg_step [- 2, 2] [2, 6] 3 7 =
     [([- 2, - 2], [2, 2]), ([2, - 2], [2, 6]), ([2, 2], [6, 6])]"
  "resample_pairs lcg_step [- 2, 2] [2, 6] 3 3 =
     [([- 2, 2], [6, 2]), ([- 2, - 2], [2, 2]), ([2, - 2], [2, 6])]"
  by (simp_all add: resample_pairs_numeral example_choices del: choice.simps)

lemma example_retained:
  "retained_lifts (resample_pairs lcg_step [- 2, 2] [2, 6] 3 7) = [- 2, 2]"
  "excluded_count (resample_pairs lcg_step [- 2, 2] [2, 6] 3 7) = 1"
  "retained_lifts (resample_pairs lcg_step [- 2, 2] [2, 6] 3 3) = [- 2]"
  by (simp_all add: example_resamples retained_lifts_def excluded_count_def mean_real_def)

lemma example_ci_small_group:
  "bootstrap_lift_ci example_library e [8] [12, 16] 2 (1/20) (Some 42) = Inr (1, 1)"
proof -
  have "boot_lifts lcg_step [8] [12, 16] 2 42 = [Finite 1, Finite 1]"
    by (simp add: boot_lifts_numeral example_choices mean_def real_div_def del: choice.simps)
  then show ?thesis
    by (simp add: bootstrap_lift_ci_def example_rng drop_nan_def np_quantile_def
        lin_quantile_def Let_def)
qed

subsection \<open>The claims about the estimator\<close>

text \<open>
  C5. For non-empty samples A and B, a resample count \<open>n_boot \<ge> 0\<close>, \<open>alpha\<close> in
  \<open>(0, 1)\<close> and a seed that \<^verbatim>\<open>default_rng\<close> accepts: the loop draws exactly \<open>n_boot\<close>
  pairs of resamples; the lifts retained are those of the pairs whose resample of A has a
  non-zero mean, so that retained and excluded iterations add up to \<open>n_boot\<close> (an excluded
  iteration is neither counted as zero nor drawn again); and the bounds returned are the
  \<open>alpha/2\<close> and \<open>1 - alpha/2\<close> quantiles by linear interpolation of the retained lifts
  \<open>(b_mean - a_mean) / a_mean\<close>. When no lift is retained there is nothing to take a
  quantile of, and the quantile call raises.
\<close>

theorem bootstrap_ci_retained_quantiles:
  assumes "a \<noteq> []" "b \<noteq> []"
    and "0 < al" "al < 1"
    and "0 \<le> n_boot"
    and "default_rng L e seed = Inr g"
  shows "length (resample_pairs (next_index L) a b (nat n_boot) g) = nat n_boot
       \<and> length (retained_lifts (resample_pairs (next_index L) a b (nat n_boot) g))
           + excluded_count (resample_pairs (next_index L) a b (nat n_boot) g) = nat n_boot
       \<and> bootstrap_lift_ci L e a b n_boot al seed =
           (let r = retained_lifts (resample_pairs (next_index L) a b (nat n_boot) g)
            in if r = [] then Inl QuantileOfEmpty
               else Inr (lin_quantile r (al / 2), lin_quantile r (1 - al / 2)))"
  using bootstrap_lift_ci_retained[OF assms]
  by (simp add: length_resample_pairs retained_plus_excluded)

theorem bootstrap_ci_retained_quantiles_witness:
  "retained_lifts (resample_pairs lcg_step [- 2, 2] [2, 6] 3 7) = [- 2, 2]
   \<and> excluded_count (resample_pairs lcg_step [- 2, 2] [2, 6] 3 7) = 1
   \<and> bootstrap_lift_ci example_library 0 [- 2, 2] [2, 6] 3 (1/2) (Some 7) = Inr (- 1, 1)"
proof -
  have g: "default_rng example_library 0 (Some 7) = Inr 7"
    by (simp add: example_rng)
  have q: "lin_quantile [- 2, 2] (1/4) = - 1" "lin_quantile [- 2, 2] (3/4) = 1"
    by (simp_all add: lin_quantile_def Let_def)
  have ne: "[- 2, 2 :: real] \<noteq> []" "[2, 6 :: real] \<noteq> []" by simp_all
  have al: "(0::real) < 1/2" "(1/2::real) < 1" by simp_all
  have n: "(0::int) \<le> 3" by simp
  show ?thesis
    using bootstrap_ci_retained_quantiles[OF ne al n g] q
    by (simp add: example_rng example_retained)
qed

text \<open>
  The statement of C7 fails as it stands. On the samples \<open>[1]\<close> and \<open>[2]\<close> with one
  iteration every resample is the sample itself: a single lift, \<open>1\<close>, remains, and the
  estimator returns the interval \<open>(1, 1)\<close>. The code does not count the lifts that
  remain before it takes their quantiles.
\<close>

theorem bootstrap_single_lift_counterexample:
  "length (drop_nan (boot_lifts (next_index example_library) [1] [2] 1 42)) = 1
   \<and> bootstrap_lift_ci example_library 0 [1] [2] 1 (1/20) (Some 42) = Inr (1, 1)"
proof -
  have l: "boot_lifts lcg_step [1] [2] (Suc 0) 42 = [Finite 1]"
    by (simp add: lcg_step_def mean_def real_div_def)
  show ?thesis
    by (simp add: bootstrap_lift_ci_def example_rng l drop_nan_def np_quantile_def
        lin_quantile_def Let_def del: boot_lifts.simps)
qed

text \<open>
  C7, amended. Under the conditions of C5, let fewer than 2 lift values remain after the
  exclusion. When none remains, the estimator fails, with the error the quantile call
  raises on an empty array. When exactly one value remains, the estimator does not fail:
  it returns bounds, and both are that value.
\<close>

theorem bootstrap_fewer_than_two_lifts:
  assumes "a \<noteq> []" "b \<noteq> []"
    and "0 < al" "al < 1"
    and "0 \<le> n_boot"
    and "default_rng L e seed = Inr g"
    and "length (retained_lifts (resample_pairs (next_index L) a b (nat n_boot) g)) < 2"
  shows "bootstrap_lift_ci L e a b n_boot al seed =
           (case retained_lifts (resample_pairs (next_index L) a b (nat n_boot) g) of
              [] \<Rightarrow> Inl QuantileOfEmpty
            | v # vs \<Rightarrow> Inr (v, v))"
proof (cases "retained_lifts (resample_pairs (next_index L) a b (nat n_boot) g)")
  case Nil
  with bootstrap_lift_ci_retained[OF assms(1-6)] show ?thesis by simp
next
  case (Cons v vs)
  with assms(7) have "vs = []" by simp
  with Cons bootstrap_lift_ci_retained[OF assms(1-6)] show ?thesis
    by (simp add: lin_quantile_single)
qed

theorem bootstrap_fewer_than_two_lifts_witness:
  "retained_lifts (resample_pairs lcg_step [- 2, 2] [2, 6] 3 3) = [- 2]
   \<and> bootstrap_lift_ci example_library 0 [- 2, 2] [2, 6] 3 (1/20) (Some 3) = Inr (- 2, - 2)
   \<and> retained_lifts (resample_pairs lcg_step [- 2, 2] [2, 6] 1 11) = []
   \<and> bootstrap_lift_ci example_library 0 [- 2, 2] [2, 6] 1 (1/20) (Some 11)
       = Inl QuantileOfEmpty"
proof -
  have g: "default_rng example_library 0 (Some 3) = Inr 3"
    and g': "default_rng example_library 0 (Some 11) = Inr 11"
    by (simp_all add: example_rng)
  have ne: "[- 2, 2 :: real] \<noteq> []" "[2, 6 :: real] \<noteq> []" by simp_all
  have al: "(0::real) < 1/20" "(1/20::real) < 1" by simp_all
  have n: "(0::int) \<le> 3" and n': "(0::int) \<le> 1" by simp_all
  have none: "retained_lifts (resample_pairs lcg_step [- 2, 2] [2, 6] (Suc 0) 11) = []"
    by (simp add: example_choices retained_lifts_def mean_real_def del: choice.simps)
  have r: "length (retained_lifts
      (resample_pairs (next_index example_library) [- 2, 2] [2, 6] (nat 3) 3)) < 2"
    by (simp add: example_rng example_retained)
  have r': "length (retained_lifts
      (resample_pairs (next_index example_library) [- 2, 2] [2, 6] (nat 1) 11)) < 2"
    by (simp add: example_rng none del: resample_pairs.simps)
  show ?thesis
    using bootstrap_fewer_than_two_lifts[OF ne al n g r]
      bootstrap_fewer_than_two_lifts[OF ne al n' g' r']
    by (simp add: example_rng example_retained none del: resample_pairs.simps)
qed

section \<open>The analysis of a group with a single observation\<close>

lemma length_clip: "length (clip s lower upper) = length s"
  by (cases lower; cases upper) simp_all

lemma winsorize_series_length: "winsorize_series s p = Inr w \<Longrightarrow> length w = length s"
  by (auto simp: winsorize_series_def length_clip split: if_splits sum.splits)

lemma winsorize_both_length:
  "winsorize_both a0 b0 p = Inr (a, b) \<Longrightarrow> length a = length a0 \<and> length b = length b0"
  by (auto simp: winsorize_both_def winsorize_series_length split: if_splits sum.splits)

lemma analyze_small_group_frame:
  "analyze_ab example_library e small_group_frame ''group'' ''revenue'' 0 (1/20) 2 =
     Inr \<lparr>group_a_mean = Finite 8, group_b_mean = Finite 14, group_a_n = 1, group_b_n = 2,
          lift = Finite (3/4), welch_t = NaN, welch_p = NaN, mw_u = Finite 0, mw_p = Finite 1,
          ci_low = 1, ci_high = 1, alpha = 1/20, winsor = 0, metric = ''revenue'',
          group_col = ''group'', value_col = ''revenue''\<rparr>"
proof -
  have lib: "parse_number example_library = parse_digits"
    "mannwhitneyu example_library = count_pairs"
    by (simp_all add: example_library_def)
  have w: "winsorize_both [8] [12, 16] 0 = Inr ([8], [12, 16])"
    by (simp add: winsorize_both_def)
  have t: "welch_t_test sf [8] [12, 16] = (NaN, NaN)" for sf
    by (simp add: welch_t_test_def ttest_ind_welch_def)
  have m: "mean [8] = Finite 8" "mean [12, 16] = Finite 14"
    by (simp_all add: mean_def real_div_def)
  have u: "mann_whitney count_pairs [8] [12, 16] = (Finite 0, Finite 1)"
    by (simp add: mann_whitney_def count_pairs_def)
  have "assemble example_library e ''group'' ''revenue'' 0 (1/20) 2 [8] [12, 16] =
     Inr \<lparr>group_a_mean = Finite 8, group_b_mean = Finite 14, group_a_n = 1, group_b_n = 2,
          lift = Finite (3/4), welch_t = NaN, welch_p = NaN, mw_u = Finite 0, mw_p = Finite 1,
          ci_low = 1, ci_high = 1, alpha = 1/20, winsor = 0, metric = ''revenue'',
          group_col = ''group'', value_col = ''revenue''\<rparr>"
    by (simp add: assemble_def lib t m u example_ci_small_group real_div_def)
  then show ?thesis
    by (simp add: analyze_ab_def lib check_small_group_frame w)
qed

text \<open>
  The statement of C3 fails as it stands. In \<open>small_group_frame\<close> the group
  \<open>control\<close> has one observation. The analysis does not fail: SciPy returns NaN for the
  statistic and the p-value of Welch's test, and the result record is produced with them.
  No function of the engine checks the sizes of the samples.
\<close>

theorem analyze_small_group_counterexample:
  "(case analyze_ab example_library 0 small_group_frame ''group'' ''revenue'' 0 (1/20) 2 of
      Inl e \<Rightarrow> False
    | Inr r \<Rightarrow> group_a_n r = 1 \<and> group_b_n r = 2 \<and> welch_t r = NaN \<and> welch_p r = NaN)"
  by (simp add: analyze_small_group_frame)

text \<open>
  C3, amended. For every input that the validator accepts and in which a group has
  fewer than 2 observations, the hypothesis tests do not fail: Welch's test yields NaN for
  the statistic and for the p-value, and the analysis goes on to the bootstrap; it returns
  the result record, with the two NaNs in it, whenever the bootstrap returns bounds, and
  otherwise fails with the error of the bootstrap.
\<close>

theorem analyze_ab_small_group:
  assumes chk: "check_inputs (parse_number L) df gcol vcol = Inr (a0, b0)"
    and win: "winsorize_both a0 b0 p = Inr (a, b)"
    and small: "length a0 < 2 \<or> length b0 < 2"
  shows "analyze_ab L e df gcol vcol p al n_boot =
           (case bootstrap_lift_ci L e a b n_boot al (Some 42) of
              Inl err \<Rightarrow> Inl err
            | Inr (lo, hi) \<Rightarrow>
                Inr \<lparr>group_a_mean = mean a, group_b_mean = mean b,
                     group_a_n = length a, group_b_n = length b,
                     lift = (if mean a \<noteq> Finite 0
                             then float_div (float_sub (mean b) (mean a)) (mean a) else NaN),
                     welch_t = NaN, welch_p = NaN,
                     mw_u = fst (mannwhitneyu L a b), mw_p = snd (mannwhitneyu L a b),
                     ci_low = lo, ci_high = hi, alpha = al, winsor = p,
                     metric = vcol, group_col = gcol, value_col = vcol\<rparr>)"
proof -
  from winsorize_both_length[OF win] small have "length a < 2 \<or> length b < 2" by simp
  then have t: "welch_t_test (t_sf L) a b = (NaN, NaN)"
    by (rule welch_small_sample)
  show ?thesis
    by (simp add: analyze_ab_def chk win assemble_def t mann_whitney_def Let_def
        case_prod_beta split: sum.splits)
qed

theorem analyze_ab_small_group_witness:
  "check_inputs parse_digits small_group_frame ''group'' ''revenue'' = Inr ([8], [12, 16])
   \<and> analyze_ab example_library 0 small_group_frame ''group'' ''revenue'' 0 (1/20) 2 =
     Inr \<lparr>group_a_mean = Finite 8, group_b_mean = Finite 14, group_a_n = 1, group_b_n = 2,
          lift = Finite (3/4), welch_t = NaN, welch_p = NaN, mw_u = Finite 0, mw_p = Finite 1,
          ci_low = 1, ci_high = 1, alpha = 1/20, winsor = 0, metric = ''revenue'',
          group_col = ''group'', value_col = ''revenue''\<rparr>"
proof -
  have chk: "check_inputs (parse_number example_library) small_group_frame ''group'' ''revenue''
      = Inr ([8], [12, 16])"
    by (simp add: example_library_def check_small_group_frame)
  have win: "winsorize_both [8] [12, 16] 0 = Inr ([8], [12, 16])"
    by (simp add: winsorize_both_def)
  have small: "length [8 :: real] < 2 \<or> length [12, 16 :: real] < 2" by simp
  have u: "mannwhitneyu example_library [8] [12, 16] = (Finite 0, Finite 1)"
    by (simp add: example_library_def count_pairs_def)
  have m: "mean [8] = Finite 8" "mean [12, 16] = Finite 14"
    by (simp_all add: mean_def real_div_def)
  show ?thesis
    using analyze_ab_small_group[OF chk win small, of 0 "1/20" 2]
    by (simp add: check_small_group_frame example_ci_small_group u m real_div_def)
qed

end
